theory Spec2Isabelle
  imports Main
begin

section \<open>JavaScript strings and values\<close>

text \<open>
  A JavaScript string is a sequence of UTF-16 code units. The development covers the
  strings whose code units lie in 0..255 (ASCII and Latin-1), which is what \<^typ>\<open>char\<close>
  holds; \<^typ>\<open>string\<close> is \<^typ>\<open>char list\<close>.
\<close>

definition code :: "char \<Rightarrow> nat" where
  "code c = of_char c"

text \<open>\<^verbatim>\<open>String.prototype.startsWith\<close> and \<^verbatim>\<open>endsWith\<close>.\<close>

definition startsWith :: "string \<Rightarrow> string \<Rightarrow> bool" where
  "startsWith s p = (take (length p) s = p)"

definition endsWith :: "string \<Rightarrow> string \<Rightarrow> bool" where
  "endsWith s p = (take (length p) (rev s) = rev p)"

text \<open>
  \<^verbatim>\<open>String.prototype.toLowerCase\<close>: on code units 0..255 the letters A..Z and the
  Latin-1 capitals U+00C0..U+00DE (without the multiplication sign U+00D7) move up by 32;
  every other unit stays.
\<close>

definition lower_char :: "char \<Rightarrow> char" where
  "lower_char c =
     (if (65 \<le> code c \<and> code c \<le> 90) \<or> (192 \<le> code c \<and> code c \<le> 222 \<and> code c \<noteq> 215)
      then char_of (code c + 32) else c)"

definition toLowerCase :: "string \<Rightarrow> string" where
  "toLowerCase s = map lower_char s"

text \<open>
  \<^verbatim>\<open>String.prototype.trim\<close> removes white space and line terminators from both ends;
  in 0..255 these are TAB, LF, VT, FF, CR, SPACE and NBSP.
\<close>

definition is_space :: "char \<Rightarrow> bool" where
  "is_space c = (code c \<in> {9, 10, 11, 12, 13, 32, 160})"

definition trim :: "string \<Rightarrow> string" where
  "trim s = rev (dropWhile is_space (rev (dropWhile is_space s)))"

text \<open>\<^verbatim>\<open>s.split(c)\<close> for a one-character separator, and \<^verbatim>\<open>xs[i]\<close> (which is
  \<^verbatim>\<open>undefined\<close>, here \<open>None\<close>, out of range).\<close>

fun split :: "char \<Rightarrow> string \<Rightarrow> string list" where
  "split c [] = [[]]"
| "split c (x # xs) =
     (if x = c then [] # split c xs
      else (case split c xs of [] \<Rightarrow> [[x]] | y # ys \<Rightarrow> (x # y) # ys))"

fun index :: "'a list \<Rightarrow> nat \<Rightarrow> 'a option" where
  "index [] i = None"
| "index (x # xs) 0 = Some x"
| "index (x # xs) (Suc i) = index xs i"

text \<open>The decimal digits of a natural number, as a template literal prints it.\<close>

fun decimal :: "nat \<Rightarrow> string" where
  "decimal n = (if n < 10 then [char_of (48 + n)] else decimal (n div 10) @ [char_of (48 + n mod 10)])"

text \<open>
  A value as \<^verbatim>\<open>JSON.parse\<close> or \<^verbatim>\<open>response.json()\<close> delivers it. A Number is held as
  the text \<^verbatim>\<open>String(n)\<close> prints for it, which determines a finite double up to the
  sign of zero; the development never computes with numbers. An object is the list of its
  own properties in insertion order; when a name occurs twice the later entry is the
  property (as the JSON parser has it).
\<close>

datatype json =
    JNull
  | JBool bool
  | JNum string
  | JStr string
  | JArr "json list"
  | JObj "(string \<times> json) list"

text \<open>
  What a \<^verbatim>\<open>throw\<close> or a rejected promise carries: an \<^verbatim>\<open>Error\<close> (or a subclass:
  TypeError, SyntaxError) with its message, or a value that is not an Error (the
  ProgressEvent a FileReader rejects with).
\<close>

datatype exn = Error string | NotAnError

text \<open>
  Reading a property \<^verbatim>\<open>v.k\<close>. \<open>None\<close> is \<^verbatim>\<open>undefined\<close>. Reading from \<^verbatim>\<open>null\<close>
  throws a TypeError (the message is V8's). The names read in this program (\<^verbatim>\<open>status\<close>,
  \<^verbatim>\<open>result\<close>, \<^verbatim>\<open>SourceCode\<close>) are no properties of strings, numbers, booleans, arrays
  or of \<^verbatim>\<open>Object.prototype\<close>, so they are \<^verbatim>\<open>undefined\<close> there.
\<close>

definition Get :: "json \<Rightarrow> string \<Rightarrow> exn + json option" where
  "Get v k =
     (case v of
        JNull \<Rightarrow> Inl (Error (''Cannot read properties of null (reading '' @ [CHR 0x27] @ k @ [CHR 0x27] @ '')''))
      | JObj kvs \<Rightarrow> Inr (map_of (rev kvs) k)
      | _ \<Rightarrow> Inr None)"

text \<open>Truthiness (\<^verbatim>\<open>ToBoolean\<close>) of a possibly undefined value.\<close>

fun truthy :: "json option \<Rightarrow> bool" where
  "truthy None = False"
| "truthy (Some JNull) = False"
| "truthy (Some (JBool b)) = b"
| "truthy (Some (JNum n)) = (n \<noteq> ''0'' \<and> n \<noteq> ''NaN'')"
| "truthy (Some (JStr s)) = (s \<noteq> [])"
| "truthy (Some (JArr xs)) = True"
| "truthy (Some (JObj kvs)) = True"

text \<open>
  \<^verbatim>\<open>ToString\<close>, as a template literal applies it. An array prints its elements joined
  by commas, \<^verbatim>\<open>null\<close> elements as the empty string. A plain object prints as
  \<^verbatim>\<open>[object Object]\<close>, unless it has an own property \<^verbatim>\<open>toString\<close> (never callable in
  parsed JSON), in which case the conversion throws a TypeError.
\<close>

fun ToString :: "json \<Rightarrow> exn + string"
  and join :: "json list \<Rightarrow> exn + string" where
  "ToString JNull = Inr ''null''"
| "ToString (JBool b) = Inr (if b then ''true'' else ''false'')"
| "ToString (JNum n) = Inr n"
| "ToString (JStr s) = Inr s"
| "ToString (JArr xs) = join xs"
| "ToString (JObj kvs) =
     (if ''toString'' \<in> fst ` set kvs then Inl (Error ''Cannot convert object to primitive value'')
      else Inr ''[object Object]'')"
| "join [] = Inr []"
| "join (x # xs) =
     (case (if x = JNull then Inr [] else ToString x) of
        Inl e \<Rightarrow> Inl e
      | Inr s \<Rightarrow>
          (if xs = [] then Inr s
           else (case join xs of Inl e \<Rightarrow> Inl e | Inr t \<Rightarrow> Inr (s @ '','' @ t))))"

section \<open>The outside world\<close>

text \<open>
  The program talks to two services. Both are parameters of the model: \<open>fetch\<close> answers
  a URL with a response or rejects, \<open>generateContent\<close> answers a request with the
  response's \<^verbatim>\<open>text\<close> (\<open>None\<close> when the response has no text) or rejects; of the
  request only the parts are kept, its model name, schema and temperature being the same
  in every call. The constants
  of \<^verbatim>\<open>../constants\<close> and the environment variable \<^verbatim>\<open>API_KEY\<close> are parameters too.
  \<open>numberOf\<close> is the runtime's conversion of a JSON number literal to a Number.
\<close>

record response =
  ok :: bool
  status :: nat
  json_body :: "exn + json"

datatype part = Text string | InlineData "string option" string

record env =
  ETHERSCAN_API_URL :: string
  ETHERSCAN_API_KEY :: string
  fetch :: "string \<Rightarrow> exn + response"
  API_KEY :: "string option"
  generateContent :: "part list \<Rightarrow> exn + string option"
  numberOf :: "string \<Rightarrow> string"

text \<open>
  What a run does that can be seen from outside, in order: the HTTP requests, the requests
  to the model, and the lines written by \<^verbatim>\<open>console.error\<close> (with the response text
  logged, \<open>None\<close> when it is \<^verbatim>\<open>undefined\<close>).
\<close>

datatype effect =
    HttpGet string
  | GenerateContent "part list"
  | ConsoleError string "string option"


section \<open>The explorer lookup (\<^verbatim>\<open>fetchContractFromEtherscan\<close>)\<close>

definition etherscan_url :: "env \<Rightarrow> string \<Rightarrow> string" where
  "etherscan_url env address =
     ETHERSCAN_API_URL env @ ''?module=contract&action=getsourcecode&address='' @ address
       @ ''&chainid=1&apikey='' @ ETHERSCAN_API_KEY env"

definition isArray :: "json option \<Rightarrow> bool" where
  "isArray v = (case v of Some (JArr xs) \<Rightarrow> True | _ \<Rightarrow> False)"

definition elements :: "json option \<Rightarrow> json list" where
  "elements v = (case v of Some (JArr xs) \<Rightarrow> xs | _ \<Rightarrow> [])"

text \<open>Lines 16 to 31: from the parsed envelope \<^verbatim>\<open>data\<close> to the source code.\<close>

definition source_of_envelope :: "json \<Rightarrow> exn + json" where
  "source_of_envelope data =
     (case Get data ''status'' of
        Inl e \<Rightarrow> Inl e
      | Inr status_flag \<Rightarrow>
          if status_flag = Some (JStr ''0'') then
            (case Get data ''result'' of
               Inl e \<Rightarrow> Inl e
             | Inr res \<Rightarrow>
                 (case (if truthy res then ToString (the res)
                        else Inr ''An unknown error occurred with the Etherscan API.'') of
                    Inl e \<Rightarrow> Inl e
                  | Inr errorMessage \<Rightarrow> Inl (Error (''Etherscan API Error: '' @ errorMessage))))
          else
            (case Get data ''result'' of
               Inl e \<Rightarrow> Inl e
             | Inr res \<Rightarrow>
                 if \<not> truthy res \<or> \<not> isArray res \<or> length (elements res) = 0 then
                   Inl (Error ''Etherscan API returned an unexpected or empty response format.'')
                 else
                   (case Get (hd (elements res)) ''SourceCode'' of
                      Inl e \<Rightarrow> Inl e
                    | Inr SourceCode \<Rightarrow>
                        if SourceCode = Some (JStr []) \<or> SourceCode = None then
                          Inl (Error ''Contract source code is not verified or available on Etherscan.'')
                        else Inr (the SourceCode))))"

definition fetchContractFromEtherscan :: "env \<Rightarrow> string \<Rightarrow> (exn + json) \<times> effect list" where
  "fetchContractFromEtherscan env address =
     (let url = etherscan_url env address in
      ((case fetch env url of
          Inl e \<Rightarrow> Inl e
        | Inr response \<Rightarrow>
            if \<not> ok response then
              Inl (Error (''Failed to fetch from Etherscan API. Status: '' @ decimal (status response)))
            else
              (case json_body response of
                 Inl e \<Rightarrow> Inl e
               | Inr data \<Rightarrow> source_of_envelope data)),
       [HttpGet url]))"

section \<open>\<^verbatim>\<open>JSON.parse\<close>\<close>

text \<open>
  The runtime's parser, after the JSON grammar (ECMA-404): a scanner that cuts the text
  into tokens, then a stack automaton over the tokens. Both recurse on the text once,
  from left to right. \<open>None\<close> is a SyntaxError.
\<close>

datatype token =
    TLBrace | TRBrace | TLBrack | TRBrack | TColon | TComma
  | TString string | TNumber string | TTrue | TFalse | TNull

definition is_digit :: "char \<Rightarrow> bool" where
  "is_digit c = (48 \<le> code c \<and> code c \<le> 57)"

definition is_hex :: "char \<Rightarrow> bool" where
  "is_hex c = (is_digit c \<or> (97 \<le> code c \<and> code c \<le> 102) \<or> (65 \<le> code c \<and> code c \<le> 70))"

definition hex_value :: "char \<Rightarrow> nat" where
  "hex_value c = (if is_digit c then code c - 48 else if 97 \<le> code c then code c - 87 else code c - 55)"

text \<open>One or more digits, then the rest.\<close>

definition digits1 :: "string \<Rightarrow> string option" where
  "digits1 s = (case s of [] \<Rightarrow> None | c # cs \<Rightarrow> if is_digit c then Some (dropWhile is_digit cs) else None)"

definition int_part :: "string \<Rightarrow> string option" where
  "int_part s = (case s of [] \<Rightarrow> None | c # cs \<Rightarrow> if c = CHR ''0'' then Some cs else digits1 s)"

definition frac_part :: "string \<Rightarrow> string option" where
  "frac_part s = (case s of [] \<Rightarrow> Some [] | c # cs \<Rightarrow> if c = CHR ''.'' then digits1 cs else Some s)"

definition exp_part :: "string \<Rightarrow> string option" where
  "exp_part s =
     (case s of
        [] \<Rightarrow> Some []
      | c # cs \<Rightarrow>
          if c = CHR ''e'' \<or> c = CHR ''E'' then
            (case cs of
               [] \<Rightarrow> None
             | d # ds \<Rightarrow> if d = CHR ''+'' \<or> d = CHR ''-'' then digits1 ds else digits1 cs)
          else Some s)"

definition is_number_literal :: "string \<Rightarrow> bool" where
  "is_number_literal s =
     (case int_part (case s of [] \<Rightarrow> [] | c # cs \<Rightarrow> if c = CHR ''-'' then cs else s) of
        None \<Rightarrow> False
      | Some s2 \<Rightarrow>
          (case frac_part s2 of
             None \<Rightarrow> False
           | Some s3 \<Rightarrow> exp_part s3 = Some []))"

definition literal_token :: "string \<Rightarrow> token option" where
  "literal_token s =
     (if s = ''true'' then Some TTrue
      else if s = ''false'' then Some TFalse
      else if s = ''null'' then Some TNull
      else if is_number_literal s then Some (TNumber s)
      else None)"

definition unescape :: "char \<Rightarrow> char option" where
  "unescape c =
     (if c = CHR 0x22 \<or> c = CHR 0x5C \<or> c = CHR ''/'' then Some c
      else if c = CHR ''b'' then Some (CHR 0x08)
      else if c = CHR ''f'' then Some (CHR 0x0C)
      else if c = CHR ''n'' then Some (CHR 0x0A)
      else if c = CHR ''r'' then Some (CHR 0x0D)
      else if c = CHR ''t'' then Some (CHR 0x09)
      else None)"

text \<open>
  The code unit of \<^verbatim>\<open>\uXXXX\<close>. A unit above 255 is outside the alphabet of the
  development; the escape is then kept as it is written (six characters, the first a
  backslash), so that such a string stays different from every string without it.
\<close>

definition unicode_escape :: "string \<Rightarrow> string" where
  "unicode_escape hs =
     (let n = foldl (\<lambda>a h. 16 * a + hex_value h) 0 hs in
      if n < 256 then [char_of n] else [CHR 0x5C, CHR ''u''] @ hs)"

definition is_json_space :: "char \<Rightarrow> bool" where
  "is_json_space c = (code c \<in> {9, 10, 13, 32})"

definition is_delimiter :: "char \<Rightarrow> bool" where
  "is_delimiter c = (is_json_space c \<or> c \<in> set ''{}[]:,'' \<or> c = CHR 0x22)"

definition punctuation :: "char \<Rightarrow> token" where
  "punctuation c =
     (if c = CHR ''{'' then TLBrace else if c = CHR ''}'' then TRBrace
      else if c = CHR ''['' then TLBrack else if c = CHR '']'' then TRBrack
      else if c = CHR '':'' then TColon else TComma)"

datatype scan =
    Between
  | InLiteral string
  | InString string
  | InEscape string
  | InUnicode string string

definition emit :: "token \<Rightarrow> token list option \<Rightarrow> token list option" where
  "emit t r = map_option ((#) t) r"

fun tokens :: "scan \<Rightarrow> string \<Rightarrow> token list option" where
  "tokens Between [] = Some []"
| "tokens (InLiteral acc) [] = map_option (\<lambda>t. [t]) (literal_token (rev acc))"
| "tokens (InString acc) [] = None"
| "tokens (InEscape acc) [] = None"
| "tokens (InUnicode acc hs) [] = None"
| "tokens Between (c # cs) =
     (if is_json_space c then tokens Between cs
      else if c = CHR 0x22 then tokens (InString []) cs
      else if is_delimiter c then emit (punctuation c) (tokens Between cs)
      else tokens (InLiteral [c]) cs)"
| "tokens (InLiteral acc) (c # cs) =
     (if is_delimiter c then
        (case literal_token (rev acc) of
           None \<Rightarrow> None
         | Some t \<Rightarrow>
             emit t
               (if is_json_space c then tokens Between cs
                else if c = CHR 0x22 then tokens (InString []) cs
                else emit (punctuation c) (tokens Between cs)))
      else tokens (InLiteral (c # acc)) cs)"
| "tokens (InString acc) (c # cs) =
     (if c = CHR 0x22 then emit (TString (rev acc)) (tokens Between cs)
      else if c = CHR 0x5C then tokens (InEscape acc) cs
      else if code c < 32 then None
      else tokens (InString (c # acc)) cs)"
| "tokens (InEscape acc) (c # cs) =
     (if c = CHR ''u'' then tokens (InUnicode acc []) cs
      else (case unescape c of None \<Rightarrow> None | Some d \<Rightarrow> tokens (InString (d # acc)) cs))"
| "tokens (InUnicode acc hs) (c # cs) =
     (if \<not> is_hex c then None
      else if length hs < 3 then tokens (InUnicode acc (hs @ [c])) cs
      else tokens (InString (rev (unicode_escape (hs @ [c])) @ acc)) cs)"

text \<open>
  The automaton: what may come next, and the arrays and objects that are open, the
  innermost first (an open object with the name whose value is awaited).
\<close>

datatype expect = ExpValue | ExpValueOrClose | ExpNameOrClose | ExpName | ExpColon | ExpCommaOrClose

datatype frame = InArray "json list" | InObject "(string \<times> json) list" "string option"

datatype pstate = Parsing expect "frame list" | Done json

fun put :: "json \<Rightarrow> frame list \<Rightarrow> pstate option" where
  "put v [] = Some (Done v)"
| "put v (InArray xs # st) = Some (Parsing ExpCommaOrClose (InArray (xs @ [v]) # st))"
| "put v (InObject kvs (Some k) # st) = Some (Parsing ExpCommaOrClose (InObject (kvs @ [(k, v)]) None # st))"
| "put v (InObject kvs None # st) = None"

definition scalar :: "(string \<Rightarrow> string) \<Rightarrow> token \<Rightarrow> json option" where
  "scalar num t =
     (case t of
        TString s \<Rightarrow> Some (JStr s)
      | TNumber s \<Rightarrow> Some (JNum (num s))
      | TTrue \<Rightarrow> Some (JBool True)
      | TFalse \<Rightarrow> Some (JBool False)
      | TNull \<Rightarrow> Some JNull
      | _ \<Rightarrow> None)"

fun pstep :: "(string \<Rightarrow> string) \<Rightarrow> pstate \<Rightarrow> token \<Rightarrow> pstate option" where
  "pstep num (Done v) t = None"
| "pstep num (Parsing e st) t =
     (if e = ExpValue \<or> e = ExpValueOrClose \<and> t \<noteq> TRBrack then
        (if t = TLBrack then Some (Parsing ExpValueOrClose (InArray [] # st))
         else if t = TLBrace then Some (Parsing ExpNameOrClose (InObject [] None # st))
         else (case scalar num t of None \<Rightarrow> None | Some v \<Rightarrow> put v st))
      else if e = ExpName \<or> e = ExpNameOrClose \<and> t \<noteq> TRBrace then
        (case (t, st) of
           (TString k, InObject kvs None # st') \<Rightarrow> Some (Parsing ExpColon (InObject kvs (Some k) # st'))
         | _ \<Rightarrow> None)
      else if e = ExpColon then
        (if t = TColon then Some (Parsing ExpValue st) else None)
      else
        (case (t, st) of
           (TComma, InArray xs # st') \<Rightarrow> if e = ExpCommaOrClose then Some (Parsing ExpValue st) else None
         | (TComma, InObject kvs None # st') \<Rightarrow> if e = ExpCommaOrClose then Some (Parsing ExpName st) else None
         | (TRBrack, InArray xs # st') \<Rightarrow> put (JArr xs) st'
         | (TRBrace, InObject kvs None # st') \<Rightarrow> put (JObj kvs) st'
         | _ \<Rightarrow> None))"

fun run :: "(string \<Rightarrow> string) \<Rightarrow> pstate \<Rightarrow> token list \<Rightarrow> pstate option" where
  "run num s [] = Some s"
| "run num s (t # ts) = (case pstep num s t of None \<Rightarrow> None | Some s' \<Rightarrow> run num s' ts)"

definition JSON_parse :: "env \<Rightarrow> string \<Rightarrow> json option" where
  "JSON_parse env text =
     (case tokens Between text of
        None \<Rightarrow> None
      | Some ts \<Rightarrow>
          (case run (numberOf env) (Parsing ExpValue []) ts of
             Some (Done v) \<Rightarrow> Some v
           | _ \<Rightarrow> None))"

section \<open>The request to the model and its answer (\<^verbatim>\<open>analyzeContractWithGemini\<close>)\<close>

text \<open>The whitepaper payload; \<open>data\<close> is \<open>None\<close> when the field holds \<^verbatim>\<open>undefined\<close>.\<close>

record payload =
  data :: "string option"
  mimeType :: string
  isText :: bool

text \<open>The instruction block (lines 44 to 57), with its line breaks and indentation.\<close>

definition promptIntro :: string where
  "promptIntro =
     [CHR 0x0A] @ ''    Analyze the following smart contract code and optional project white paper.'' @
     [CHR 0x0A] @
     [CHR 0x0A] @ ''    Perform a comprehensive audit and provide the output ONLY in the specified JSON format.'' @
     [CHR 0x0A] @
     [CHR 0x0A] @ ''    **Analysis requirements:**'' @
     [CHR 0x0A] @ ''    1.  **Vulnerability Scan:** Analyze the code for common vulnerabilities (reentrancy, overflows, access control, etc.). List each, its severity (Critical, High, Medium, Low), and an explanation.'' @
     [CHR 0x0A] @ ''    2.  **Tokenomics Analysis:** Evaluate the tokenomics (supply, distribution, vesting). Assess if the structure is sound.'' @
     [CHR 0x0A] @ ''    3.  **Exchange Red Flags:** Identify red flags for exchanges (honeypot, rug pull potential, centralization).'' @
     [CHR 0x0A] @ ''    4.  **Overall Summary & Investment Thesis:** Summarize findings and give a clear investment recommendation from a technical perspective.'' @
     [CHR 0x0A] @ ''    5.  **Safety Score:** Provide a safety score from 0 (extremely risky) to 100 (very secure).'' @
     [CHR 0x0A] @ ''    '' @
     [CHR 0x0A] @ ''    Here is the smart contract:'' @
     [CHR 0x0A] @ ''  ''"

text \<open>A string field inside a template literal: \<^verbatim>\<open>undefined\<close> prints as its name.\<close>

definition template_field :: "string option \<Rightarrow> string" where
  "template_field v = (case v of None \<Rightarrow> ''undefined'' | Some s \<Rightarrow> s)"

text \<open>Lines 59 to 78. The contract code goes through a template literal, which can throw.\<close>

definition build_parts :: "json \<Rightarrow> payload option \<Rightarrow> exn + part list" where
  "build_parts contractCode whitepaper =
     (case ToString contractCode of
        Inl e \<Rightarrow> Inl e
      | Inr code_text \<Rightarrow>
          Inr ([Text promptIntro, Text (''```solidity'' @ [CHR 0x0A] @ code_text @ [CHR 0x0A] @ ''```'')] @
               (case whitepaper of
                  Some wp \<Rightarrow>
                    if isText wp then
                      [Text (''Here is the whitepaper content:'' @ [CHR 0x0A, CHR 0x0A] @ template_field (data wp))]
                    else
                      [Text ''Here is the whitepaper file for analysis:'', InlineData (data wp) (mimeType wp)]
                | None \<Rightarrow> [Text ''No whitepaper was provided.''])))"

text \<open>
  Lines 134 to 141: the answer's text is trimmed and parsed; whatever is thrown inside the
  \<^verbatim>\<open>try\<close> (a SyntaxError of the parser, a TypeError when the text is \<^verbatim>\<open>undefined\<close>) is
  caught, logged with the raw text and replaced by one Error.
\<close>

definition parse_response :: "env \<Rightarrow> string option \<Rightarrow> (exn + json) \<times> effect list" where
  "parse_response env response_text =
     (case (case response_text of None \<Rightarrow> None | Some t \<Rightarrow> JSON_parse env (trim t)) of
        Some result \<Rightarrow> (Inr result, [])
      | None \<Rightarrow>
          (Inl (Error ''AI failed to return a valid analysis. Please try again.''),
           [ConsoleError ''Failed to parse Gemini response:'' response_text]))"

definition analyzeContractWithGemini :: "env \<Rightarrow> json \<Rightarrow> payload option \<Rightarrow> (exn + json) \<times> effect list" where
  "analyzeContractWithGemini env contractCode whitepaper =
     (if API_KEY env = None \<or> API_KEY env = Some [] then
        (Inl (Error ''API_KEY environment variable not set''), [])
      else
        (case build_parts contractCode whitepaper of
           Inl e \<Rightarrow> (Inl e, [])
         | Inr parts \<Rightarrow>
             (case generateContent env parts of
                Inl e \<Rightarrow> (Inl e, [GenerateContent parts])
              | Inr response_text \<Rightarrow>
                  (fst (parse_response env response_text),
                   GenerateContent parts # snd (parse_response env response_text)))))"

section \<open>The form and its submit handler (\<^verbatim>\<open>handleAnalyze\<close>)\<close>

text \<open>
  A selected file: its name, its declared type, and what a FileReader delivers for it as
  text and as a data URL (\<open>None\<close> when the read fails; the reader then rejects with its
  error event, which is not an Error).
\<close>

record File =
  file_name :: string
  file_type :: string
  as_text :: "string option"
  as_dataURL :: "string option"

datatype readAs = AsText | AsDataURL

definition fileReader :: "File \<Rightarrow> readAs \<Rightarrow> exn + string" where
  "fileReader f mode =
     (case (case mode of AsText \<Rightarrow> as_text f | AsDataURL \<Rightarrow> as_dataURL f) of
        None \<Rightarrow> Inl NotAnError
      | Some s \<Rightarrow> Inr s)"

text \<open>The input types \<^verbatim>\<open>'address'\<close> and \<^verbatim>\<open>'file'\<close>.\<close>

datatype InputType = ADDRESS | FILE

record form =
  inputType :: InputType
  contractAddress :: string
  contractFile :: "File option"
  whitepaperFile :: "File option"

record ui =
  isLoading :: bool
  loadingMessage :: string
  error :: "string option"
  result :: "json option"

text \<open>The pattern \<^verbatim>\<open>/^0x[a-fA-F0-9]{40}$/\<close> (no flags: \<^verbatim>\<open>$\<close> is the end of the string).\<close>

definition matches_address :: "string \<Rightarrow> bool" where
  "matches_address s = (length s = 42 \<and> take 2 s = ''0x'' \<and> list_all is_hex (drop 2 s))"

text \<open>Lines 57 to 68: the contract code, the loading message set on the way, the calls made.\<close>

definition resolve_source :: "env \<Rightarrow> form \<Rightarrow> ui \<Rightarrow> (exn + json) \<times> ui \<times> effect list" where
  "resolve_source env inp st =
     (if inputType inp = ADDRESS then
        if \<not> matches_address (contractAddress inp) then
          (Inl (Error ''Please enter a valid Ethereum address.''), st, [])
        else
          (fst (fetchContractFromEtherscan env (contractAddress inp)),
           st\<lparr>loadingMessage := ''Fetching contract from Etherscan...''\<rparr>,
           snd (fetchContractFromEtherscan env (contractAddress inp)))
      else
        (case contractFile inp of
           None \<Rightarrow> (Inl (Error ''Please upload a contract file.''), st, [])
         | Some f \<Rightarrow>
             (map_sum id JStr (fileReader f AsText),
              st\<lparr>loadingMessage := ''Reading contract file...''\<rparr>,
              [])))"

text \<open>Lines 73 to 89: the payload of a whitepaper file.\<close>

definition whitepaper_payload :: "File \<Rightarrow> exn + payload" where
  "whitepaper_payload whitepaper =
     (let fileType = file_type whitepaper;
          fileName = toLowerCase (file_name whitepaper) in
      if endsWith fileName ''.txt'' \<or> endsWith fileName ''.md'' \<or> startsWith fileType ''text/'' then
        (case fileReader whitepaper AsText of
           Inl e \<Rightarrow> Inl e
         | Inr t \<Rightarrow>
             Inr \<lparr>data = Some t, mimeType = (if fileType \<noteq> [] then fileType else ''text/plain''), isText = True\<rparr>)
      else if endsWith fileName ''.pdf'' \<or> fileType = ''application/pdf'' then
        (case fileReader whitepaper AsDataURL of
           Inl e \<Rightarrow> Inl e
         | Inr dataUrl \<Rightarrow>
             Inr \<lparr>data = index (split (CHR '','') dataUrl) 1, mimeType = ''application/pdf'', isText = False\<rparr>)
      else if endsWith fileName ''.docx''
              \<or> fileType = ''application/vnd.openxmlformats-officedocument.wordprocessingml.document'' then
        (case fileReader whitepaper AsDataURL of
           Inl e \<Rightarrow> Inl e
         | Inr dataUrl \<Rightarrow>
             Inr \<lparr>data = index (split (CHR '','') dataUrl) 1,
                  mimeType = ''application/vnd.openxmlformats-officedocument.wordprocessingml.document'',
                  isText = False\<rparr>)
      else
        Inl (Error (''Unsupported whitepaper file type: '' @ file_name whitepaper
                    @ ''. Please use PDF, DOCX, TXT, or MD.'')))"

text \<open>Lines 70 to 90: no file, no payload.\<close>

definition build_whitepaper :: "form \<Rightarrow> ui \<Rightarrow> (exn + payload option) \<times> ui" where
  "build_whitepaper inp st =
     (case whitepaperFile inp of
        None \<Rightarrow> (Inr None, st)
      | Some f \<Rightarrow> (map_sum id Some (whitepaper_payload f), st\<lparr>loadingMessage := ''Reading whitepaper...''\<rparr>))"

text \<open>
  The \<^verbatim>\<open>try\<close> block (lines 56 to 95): what it throws, if anything, the state it leaves and
  the calls it made.
\<close>

definition try_block :: "env \<Rightarrow> form \<Rightarrow> ui \<Rightarrow> exn option \<times> ui \<times> effect list" where
  "try_block env inp st =
     (case resolve_source env inp st of
        (Inl e, st1, es1) \<Rightarrow> (Some e, st1, es1)
      | (Inr contractCode, st1, es1) \<Rightarrow>
          (case build_whitepaper inp st1 of
             (Inl e, st2) \<Rightarrow> (Some e, st2, es1)
           | (Inr whitepaperPayload, st2) \<Rightarrow>
               (let st3 = st2\<lparr>loadingMessage := ''Analyzing with Gemini AI...''\<rparr> in
                case analyzeContractWithGemini env contractCode whitepaperPayload of
                  (Inl e, es2) \<Rightarrow> (Some e, st3, es1 @ es2)
                | (Inr analysisResult, es2) \<Rightarrow> (None, st3\<lparr>result := Some analysisResult\<rparr>, es1 @ es2))))"

text \<open>Lines 52 to 54, the \<^verbatim>\<open>catch\<close> block and the \<^verbatim>\<open>finally\<close> block.\<close>

definition enter_submitting :: "ui \<Rightarrow> ui" where
  "enter_submitting st = st\<lparr>isLoading := True, error := None, result := None\<rparr>"

definition catch_block :: "exn \<Rightarrow> ui \<Rightarrow> ui" where
  "catch_block e st =
     (case e of
        Error message \<Rightarrow> st\<lparr>error := Some message\<rparr>
      | NotAnError \<Rightarrow> st\<lparr>error := Some ''An unknown error occurred.''\<rparr>)"

definition finally_block :: "ui \<Rightarrow> ui" where
  "finally_block st = st\<lparr>isLoading := False, loadingMessage := []\<rparr>"

definition handleAnalyze :: "env \<Rightarrow> form \<Rightarrow> ui \<Rightarrow> ui \<times> effect list" where
  "handleAnalyze env inp st =
     (case try_block env inp (enter_submitting st) of
        (None, st', es) \<Rightarrow> (finally_block st', es)
      | (Some e, st', es) \<Rightarrow> (finally_block (catch_block e st'), es))"

section \<open>Notions of the specification\<close>

text \<open>The message the error banner shows for what was thrown (the \<^verbatim>\<open>catch\<close> block).\<close>

definition user_message :: "exn \<Rightarrow> string" where
  "user_message e = (case e of Error m \<Rightarrow> m | NotAnError \<Rightarrow> ''An unknown error occurred.'')"

definition ai_requests :: "effect list \<Rightarrow> part list list" where
  "ai_requests es = concat (map (\<lambda>e. case e of GenerateContent ps \<Rightarrow> [ps] | _ \<Rightarrow> []) es)"

text \<open>
  The categories of section 4.3 of the specification. The extension of a file name is
  what follows its last dot, in lower case; a name without a dot has none.
\<close>

datatype category = TextDocument | PdfDocument | DocxDocument | Unsupported

definition extension :: "string \<Rightarrow> string option" where
  "extension name =
     (let n = toLowerCase name in
      if CHR ''.'' \<in> set n then Some (rev (takeWhile (\<lambda>c. c \<noteq> CHR ''.'') (rev n))) else None)"

definition category_of :: "string \<Rightarrow> string \<Rightarrow> category" where
  "category_of name mime =
     (if extension name = Some ''txt'' \<or> extension name = Some ''md'' \<or> startsWith mime ''text/'' then TextDocument
      else if extension name = Some ''pdf'' \<or> mime = ''application/pdf'' then PdfDocument
      else if extension name = Some ''docx''
              \<or> mime = ''application/vnd.openxmlformats-officedocument.wordprocessingml.document'' then DocxDocument
      else Unsupported)"

definition unsupported_message :: "string \<Rightarrow> string" where
  "unsupported_message name = ''Unsupported whitepaper file type: '' @ name @ ''. Please use PDF, DOCX, TXT, or MD.''"

text \<open>The base64 alphabet with its padding character.\<close>

definition is_base64 :: "char \<Rightarrow> bool" where
  "is_base64 c = (c \<in> set ''ABCDEFGHIJKLMNOPQRSTUVWXYZabcdefghijklmnopqrstuvwxyz0123456789+/='')"








text \<open>
  The shape of an AnalysisResult (section 3 of the specification, \<^verbatim>\<open>types.ts\<close>): an
  object with the six fields, each of its type.
\<close>

definition field :: "json \<Rightarrow> string \<Rightarrow> json option" where
  "field v k = (case v of JObj kvs \<Rightarrow> map_of (rev kvs) k | _ \<Rightarrow> None)"

definition is_string :: "json option \<Rightarrow> bool" where
  "is_string v = (case v of Some (JStr s) \<Rightarrow> True | _ \<Rightarrow> False)"

definition is_number :: "json option \<Rightarrow> bool" where
  "is_number v = (case v of Some (JNum n) \<Rightarrow> True | _ \<Rightarrow> False)"

definition is_boolean :: "json option \<Rightarrow> bool" where
  "is_boolean v = (case v of Some (JBool b) \<Rightarrow> True | _ \<Rightarrow> False)"

definition is_Vulnerability :: "json \<Rightarrow> bool" where
  "is_Vulnerability v =
     (is_string (field v ''name'')
      \<and> field v ''severity'' \<in> {Some (JStr ''Critical''), Some (JStr ''High''), Some (JStr ''Medium''),
                                 Some (JStr ''Low''), Some (JStr ''Informational'')}
      \<and> is_string (field v ''description''))"

definition is_Tokenomics :: "json option \<Rightarrow> bool" where
  "is_Tokenomics v =
     (case v of
        Some t \<Rightarrow> is_string (field t ''analysis'') \<and> is_boolean (field t ''passedAuditStandards'')
      | None \<Rightarrow> False)"

definition is_RedFlag :: "json \<Rightarrow> bool" where
  "is_RedFlag v = (is_string (field v ''flag'') \<and> is_string (field v ''description''))"

definition is_list_of :: "(json \<Rightarrow> bool) \<Rightarrow> json option \<Rightarrow> bool" where
  "is_list_of P v = (case v of Some (JArr xs) \<Rightarrow> list_all P xs | _ \<Rightarrow> False)"

definition is_AnalysisResult :: "json \<Rightarrow> bool" where
  "is_AnalysisResult v =
     (is_number (field v ''score'')
      \<and> is_string (field v ''recommendation'')
      \<and> is_string (field v ''summary'')
      \<and> is_list_of is_Vulnerability (field v ''vulnerabilities'')
      \<and> is_Tokenomics (field v ''tokenomics'')
      \<and> is_list_of is_RedFlag (field v ''exchangeRedFlags''))"

definition invalid_response :: exn where
  "invalid_response = Error ''AI failed to return a valid analysis. Please try again.''"

section \<open>A scenario\<close>

text \<open>
  The address \<^verbatim>\<open>0x1111111111111111111111111111111111111111\<close>, an explorer that
  answers with the source \<^verbatim>\<open>contract A{}\<close>, no whitepaper, and a model that answers
  \<^verbatim>\<open>{}\<close>.
\<close>

definition idle :: ui where
  "idle = \<lparr>isLoading = False, loadingMessage = [], error = None, result = None\<rparr>"

definition explorer_answer :: response where
  "explorer_answer =
     \<lparr>ok = True, status = 200,
      json_body = Inr (JObj [(''status'', JStr ''1''), (''message'', JStr ''OK''),
                             (''result'', JArr [JObj [(''SourceCode'', JStr ''contract A{}'')]])])\<rparr>"

definition scenario_env :: env where
  "scenario_env =
     \<lparr>ETHERSCAN_API_URL = ''https://api.etherscan.io/v2/api'', ETHERSCAN_API_KEY = ''KEY'',
      fetch = (\<lambda>url. Inr explorer_answer), API_KEY = Some ''secret'',
      generateContent = (\<lambda>parts. Inr (Some ''{}'')), numberOf = id\<rparr>"

definition scenario_form :: form where
  "scenario_form =
     \<lparr>inputType = ADDRESS, contractAddress = ''0x1111111111111111111111111111111111111111'',
      contractFile = None, whitepaperFile = None\<rparr>"

definition scenario_url :: string where
  "scenario_url = ''https://api.etherscan.io/v2/api?module=contract&action=getsourcecode&address=0x1111111111111111111111111111111111111111&chainid=1&apikey=KEY''"

definition scenario_parts :: "part list" where
  "scenario_parts =
     [Text promptIntro,
      Text (''```solidity'' @ [CHR 0x0A] @ ''contract A{}'' @ [CHR 0x0A] @ ''```''),
      Text ''No whitepaper was provided.'']"



text \<open>Whitepaper files.\<close>

definition doc_txt :: File where
  "doc_txt = \<lparr>file_name = ''doc.txt'', file_type = [], as_text = Some ''A whitepaper.'',
              as_dataURL = Some ''data:text/plain;base64,QSB3aGl0ZXBhcGVyLg==''\<rparr>"

definition doc_xyz :: File where
  "doc_xyz = \<lparr>file_name = ''doc.xyz'', file_type = [], as_text = Some ''A whitepaper.'',
              as_dataURL = Some ''data:application/octet-stream;base64,QSB3aGl0ZXBhcGVyLg==''\<rparr>"

definition report_pdf :: File where
  "report_pdf = \<lparr>file_name = ''report.pdf'', file_type = ''application/pdf'', as_text = Some ''%PDF'',
                 as_dataURL = Some ''data:application/pdf;base64,JVBERg==''\<rparr>"

definition REPORT_PDF :: File where
  "REPORT_PDF = \<lparr>file_name = ''REPORT.PDF'', file_type = [], as_text = Some ''%PDF'',
                 as_dataURL = Some ''data:application/octet-stream;base64,JVBERg==''\<rparr>"

section \<open>The submit handler, stage by stage\<close>

lemma catch_block_eq: "catch_block e st = st\<lparr>error := Some (user_message e)\<rparr>"
  by (cases e) (simp_all add: catch_block_def user_message_def)

lemma resolve_source_ui:
  "resolve_source env inp st = (r, st', es) \<Longrightarrow>
     error st' = error st \<and> result st' = result st \<and> isLoading st' = isLoading st"
  by (auto simp: resolve_source_def split: if_splits option.splits)

lemma build_whitepaper_ui:
  "build_whitepaper inp st = (r, st') \<Longrightarrow>
     error st' = error st \<and> result st' = result st \<and> isLoading st' = isLoading st"
  by (auto simp: build_whitepaper_def split: option.splits)

lemma try_block_ui:
  assumes "try_block env inp st = (thrown, st', es)"
  shows "error st' = error st \<and> isLoading st' = isLoading st \<and>
         (case thrown of Some e \<Rightarrow> result st' = result st | None \<Rightarrow> result st' \<noteq> None)"
  using assms
  by (auto simp: try_block_def Let_def split: prod.splits sum.splits
      dest!: resolve_source_ui build_whitepaper_ui)

lemma resolve_source_effects:
  "snd (snd (resolve_source env inp st)) =
     (if inputType inp = ADDRESS \<and> matches_address (contractAddress inp)
      then [HttpGet (etherscan_url env (contractAddress inp))] else [])"
  by (auto simp: resolve_source_def fetchContractFromEtherscan_def Let_def split: option.splits)

lemma build_whitepaper_fst: "fst (build_whitepaper inp s) = fst (build_whitepaper inp s')"
  by (simp add: build_whitepaper_def split: option.splits)

lemma resolve_source_fst: "fst (resolve_source env inp s) = fst (resolve_source env inp s')"
  by (simp add: resolve_source_def split: option.splits)

lemma try_block_thrown:
  "fst (try_block env inp s) =
     (case fst (resolve_source env inp s) of
        Inl e \<Rightarrow> Some e
      | Inr contractCode \<Rightarrow>
          (case fst (build_whitepaper inp s) of
             Inl e \<Rightarrow> Some e
           | Inr wp \<Rightarrow>
               (case fst (analyzeContractWithGemini env contractCode wp) of
                  Inl e \<Rightarrow> Some e
                | Inr r \<Rightarrow> None)))"
proof -
  obtain a s1 es1 where r: "resolve_source env inp s = (a, s1, es1)"
    by (cases "resolve_source env inp s") auto
  obtain b s2 where w: "build_whitepaper inp s1 = (b, s2)"
    by (cases "build_whitepaper inp s1") auto
  have b: "fst (build_whitepaper inp s) = b"
    using w build_whitepaper_fst [of inp s s1] by simp
  show ?thesis
    using r w b by (auto simp: try_block_def Let_def split: sum.splits prod.splits)
qed


lemma try_block_effects:
  "snd (snd (try_block env inp s)) =
     snd (snd (resolve_source env inp s)) @
     (case fst (resolve_source env inp s) of
        Inl e \<Rightarrow> []
      | Inr contractCode \<Rightarrow>
          (case fst (build_whitepaper inp s) of
             Inl e \<Rightarrow> []
           | Inr wp \<Rightarrow> snd (analyzeContractWithGemini env contractCode wp)))"
proof -
  obtain a s1 es1 where r: "resolve_source env inp s = (a, s1, es1)"
    by (cases "resolve_source env inp s") auto
  obtain b s2 where w: "build_whitepaper inp s1 = (b, s2)"
    by (cases "build_whitepaper inp s1") auto
  have b: "fst (build_whitepaper inp s) = b"
    using w build_whitepaper_fst [of inp s s1] by simp
  show ?thesis
    using r w b by (auto simp: try_block_def Let_def split: sum.splits prod.splits)
qed

lemma handleAnalyze_effects:
  "snd (handleAnalyze env inp st) = snd (snd (try_block env inp (enter_submitting st)))"
  by (simp add: handleAnalyze_def split: prod.splits option.splits)

lemma handleAnalyze_final:
  "fst (handleAnalyze env inp st) =
     (case fst (try_block env inp (enter_submitting st)) of
        None \<Rightarrow> \<lparr>isLoading = False, loadingMessage = [], error = None,
                  result = result (fst (snd (try_block env inp (enter_submitting st))))\<rparr>
      | Some e \<Rightarrow> \<lparr>isLoading = False, loadingMessage = [], error = Some (user_message e), result = None\<rparr>)"
proof -
  obtain t s' es where t: "try_block env inp (enter_submitting st) = (t, s', es)"
    by (cases "try_block env inp (enter_submitting st)") auto
  from try_block_ui [OF t]
  have "error s' = None" and "case t of Some e \<Rightarrow> result s' = None | None \<Rightarrow> result s' \<noteq> None"
    by (simp_all add: enter_submitting_def split: option.splits)
  then show ?thesis
    using t by (cases s') (auto simp: handleAnalyze_def finally_block_def catch_block_eq split: option.splits)
qed

subsection \<open>The scenario, evaluated\<close>

lemma scenario_address: "matches_address (contractAddress scenario_form)"
  by code_simp

lemma scenario_url_eq: "etherscan_url scenario_env (contractAddress scenario_form) = scenario_url"
  by (simp add: etherscan_url_def scenario_env_def scenario_form_def scenario_url_def)

lemma scenario_source:
  "fst (resolve_source scenario_env scenario_form s) = Inr (JStr ''contract A{}'')"
  by (simp add: resolve_source_def scenario_address fetchContractFromEtherscan_def Let_def
      scenario_env_def explorer_answer_def source_of_envelope_def Get_def isArray_def elements_def)
     (simp add: scenario_form_def)

lemma scenario_no_whitepaper: "fst (build_whitepaper scenario_form s) = Inr None"
  by (simp add: build_whitepaper_def scenario_form_def)

lemma scenario_build_parts: "build_parts (JStr ''contract A{}'') None = Inr scenario_parts"
  by (simp add: build_parts_def scenario_parts_def)

lemma parse_empty_object: "JSON_parse env ''{}'' = Some (JObj [])"
  by (simp add: JSON_parse_def is_json_space_def is_delimiter_def punctuation_def emit_def code_def)

lemma trim_empty_object: "trim ''{}'' = ''{}''"
  by (simp add: trim_def is_space_def code_def)

lemma scenario_analysis:
  "analyzeContractWithGemini scenario_env (JStr ''contract A{}'') None =
     (Inr (JObj []), [GenerateContent scenario_parts])"
  unfolding analyzeContractWithGemini_def scenario_build_parts
  by (simp add: scenario_env_def parse_response_def parse_empty_object trim_empty_object)

lemma scenario_effects:
  "snd (handleAnalyze scenario_env scenario_form st) = [HttpGet scenario_url, GenerateContent scenario_parts]"
  by (simp add: handleAnalyze_effects try_block_effects resolve_source_effects scenario_address
      scenario_url_eq scenario_source scenario_no_whitepaper scenario_analysis)
     (simp add: scenario_form_def)

lemma trim_oops: "trim ''oops'' = ''oops''"
  by (simp add: trim_def is_space_def code_def)

lemma parse_oops: "JSON_parse env ''oops'' = None"
  by (simp add: JSON_parse_def is_json_space_def is_delimiter_def code_def literal_token_def
      is_number_literal_def int_part_def digits1_def is_digit_def)

lemma trim_open_brace: "trim ''{'' = ''{''"
  by (simp add: trim_def is_space_def code_def)

lemma parse_open_brace: "JSON_parse env ''{'' = None"
  by (simp add: JSON_parse_def is_json_space_def is_delimiter_def punctuation_def emit_def code_def)

lemma trim_spaced_array: "trim '' [] '' = ''[]''"
  by (simp add: trim_def is_space_def code_def)

lemma parse_empty_array: "JSON_parse env ''[]'' = Some (JArr [])"
  by (simp add: JSON_parse_def is_json_space_def is_delimiter_def punctuation_def emit_def code_def)

subsection \<open>The address pattern\<close>




subsection \<open>The request to the model\<close>

lemma ai_requests_append: "ai_requests (xs @ ys) = ai_requests xs @ ai_requests ys"
  by (simp add: ai_requests_def)

lemma JSON_parse_generateContent: "JSON_parse (env\<lparr>generateContent := g\<rparr>) t = JSON_parse env t"
  by (simp add: JSON_parse_def split: option.splits)

lemma parse_response_generateContent:
  "parse_response (env\<lparr>generateContent := g\<rparr>) t = parse_response env t"
  by (cases t) (simp_all add: parse_response_def JSON_parse_generateContent)

lemma parse_response_failure:
  "isl (fst (parse_response env t)) \<Longrightarrow>
     parse_response env t = (Inl invalid_response, [ConsoleError ''Failed to parse Gemini response:'' t])"
  by (auto simp: parse_response_def invalid_response_def split: option.splits)

lemma resolve_source_generateContent:
  "resolve_source (env\<lparr>generateContent := g\<rparr>) inp s = resolve_source env inp s"
  by (simp add: resolve_source_def fetchContractFromEtherscan_def etherscan_url_def)

lemma resolve_source_API_KEY:
  "resolve_source (env\<lparr>API_KEY := k\<rparr>) inp s = resolve_source env inp s"
  by (simp add: resolve_source_def fetchContractFromEtherscan_def etherscan_url_def)

lemma analyze_malformed:
  assumes "isl (fst (parse_response env t))"
  shows "fst (analyzeContractWithGemini (env\<lparr>generateContent := \<lambda>p. Inr t\<rparr>) c w) =
     (if API_KEY env = None \<or> API_KEY env = Some [] then Inl (Error ''API_KEY environment variable not set'')
      else (case build_parts c w of
              Inl e \<Rightarrow> Inl e
            | Inr parts \<Rightarrow> Inl invalid_response))"
  using parse_response_failure [OF assms]
  by (simp add: analyzeContractWithGemini_def parse_response_generateContent split: sum.splits)

subsection \<open>The whitepaper builder\<close>

lemma endsWith_extension:
  assumes "CHR ''.'' \<notin> set e"
  shows "endsWith (toLowerCase name) (CHR ''.'' # e) \<longleftrightarrow> extension name = Some e"
proof -
  let ?r = "rev (toLowerCase name)"
  have "take (Suc (length e)) ?r = rev e @ ''.'' \<longleftrightarrow>
        (CHR ''.'' \<in> set ?r \<and> takeWhile (\<lambda>c. c \<noteq> CHR ''.'') ?r = rev e)" (is "?L \<longleftrightarrow> ?R")
  proof
    assume l: ?L
    then have r: "?r = (rev e @ ''.'') @ drop (Suc (length e)) ?r"
      by (metis append_take_drop_id)
    have "CHR ''.'' \<in> set ?r"
      by (subst r) simp
    moreover have "takeWhile (\<lambda>c. c \<noteq> CHR ''.'') ?r = rev e"
      using assms by (subst r) (auto simp: takeWhile_tail)
    ultimately show ?R by simp
  next
    assume r: ?R
    then have "dropWhile (\<lambda>c. c \<noteq> CHR ''.'') ?r \<noteq> []"
      by auto
    then obtain d ds where d: "dropWhile (\<lambda>c. c \<noteq> CHR ''.'') ?r = d # ds"
      by (cases "dropWhile (\<lambda>c. c \<noteq> CHR ''.'') ?r") auto
    then have "d = CHR ''.''"
      by (metis (mono_tags, lifting) hd_dropWhile list.sel(1) list.simps(3))
    with d r have "?r = rev e @ CHR ''.'' # ds"
      by (metis takeWhile_dropWhile_id)
    then show ?L by simp
  qed
  then show ?thesis
    by (auto simp: endsWith_def extension_def Let_def)
qed

lemma whitepaper_payload_category:
  "whitepaper_payload f =
     (case category_of (file_name f) (file_type f) of
        TextDocument \<Rightarrow>
          (case fileReader f AsText of
             Inl e \<Rightarrow> Inl e
           | Inr t \<Rightarrow>
               Inr \<lparr>data = Some t, mimeType = (if file_type f \<noteq> [] then file_type f else ''text/plain''),
                    isText = True\<rparr>)
      | PdfDocument \<Rightarrow>
          (case fileReader f AsDataURL of
             Inl e \<Rightarrow> Inl e
           | Inr u \<Rightarrow> Inr \<lparr>data = index (split (CHR '','') u) 1, mimeType = ''application/pdf'', isText = False\<rparr>)
      | DocxDocument \<Rightarrow>
          (case fileReader f AsDataURL of
             Inl e \<Rightarrow> Inl e
           | Inr u \<Rightarrow>
               Inr \<lparr>data = index (split (CHR '','') u) 1,
                    mimeType = ''application/vnd.openxmlformats-officedocument.wordprocessingml.document'',
                    isText = False\<rparr>)
      | Unsupported \<Rightarrow> Inl (Error (unsupported_message (file_name f))))"
proof -
  have ext: "endsWith (toLowerCase (file_name f)) ''.txt'' \<longleftrightarrow> extension (file_name f) = Some ''txt''"
    "endsWith (toLowerCase (file_name f)) ''.md'' \<longleftrightarrow> extension (file_name f) = Some ''md''"
    "endsWith (toLowerCase (file_name f)) ''.pdf'' \<longleftrightarrow> extension (file_name f) = Some ''pdf''"
    "endsWith (toLowerCase (file_name f)) ''.docx'' \<longleftrightarrow> extension (file_name f) = Some ''docx''"
    by (rule endsWith_extension, simp)+
  show ?thesis
    unfolding whitepaper_payload_def Let_def ext category_of_def unsupported_message_def
    by simp
qed

lemma split_without: "c \<notin> set xs \<Longrightarrow> split c xs = [xs]"
  by (induction xs) auto

lemma split_at_first: "c \<notin> set pre \<Longrightarrow> split c (pre @ c # rest) = pre # split c rest"
  by (induction pre) auto

lemma second_segment:
  "c \<notin> set pre \<Longrightarrow> c \<notin> set rest \<Longrightarrow> index (split c (pre @ c # rest)) 1 = Some rest"
  by (simp add: split_at_first split_without)

lemma comma_not_base64: "is_base64 c \<Longrightarrow> c \<noteq> CHR '',''"
  by (auto simp: is_base64_def)

lemma code_char_of: "n < 256 \<Longrightarrow> code (char_of n) = n"
  by (simp add: code_def)

lemma lower_char_idem: "lower_char (lower_char c) = lower_char c"
  by (auto simp: lower_char_def code_char_of)

lemma toLowerCase_idem: "toLowerCase (toLowerCase s) = toLowerCase s"
  by (simp add: toLowerCase_def lower_char_idem)

lemma extension_lower: "extension (toLowerCase n) = extension n"
  by (simp add: extension_def toLowerCase_idem)

lemma category_lower: "category_of (toLowerCase n) m = category_of n m"
  by (simp add: category_of_def extension_lower)

lemma extension_doc_txt: "extension ''doc.txt'' = Some ''txt''"
  by code_simp

lemma category_doc_txt: "category_of ''doc.txt'' mime = TextDocument"
  by (simp add: category_of_def extension_doc_txt)

lemma extension_report_pdf: "extension ''report.pdf'' = Some ''pdf''"
  by code_simp

lemma extension_REPORT_PDF: "extension ''REPORT.PDF'' = Some ''pdf''"
  by code_simp

lemma lower_REPORT_PDF: "toLowerCase ''REPORT.PDF'' = ''report.pdf''"
  by code_simp

lemma extension_doc_xyz: "extension ''doc.xyz'' = Some ''xyz''"
  by code_simp

lemma extension_report: "extension ''report'' = None"
  by code_simp

subsection \<open>The explorer lookup\<close>







section \<open>The properties\<close>

text \<open>
  C1, as the claim states it, fails: the answer \<^verbatim>\<open>{}\<close> is returned as the result,
  though it has none of the six fields.
\<close>

theorem validator_counterexample:
  "fst (parse_response scenario_env (Some ''{}'')) = Inr (JObj [])
   \<and> \<not> is_AnalysisResult (JObj [])"
  by (simp add: parse_response_def trim_empty_object parse_empty_object is_AnalysisResult_def
      field_def is_number_def)

text \<open>
  C1, amended. The validator trims the text and parses it as JSON. It returns the parsed
  value whenever the text parses, whatever its shape: the shape is asked of the model
  through the response schema and not checked on the answer. It fails with the one
  invalid-response error exactly when there is no text or the trimmed text is not JSON.
  What the request builder returns, once the model has answered, is what the validator
  returns.
\<close>

theorem validator_returns_parsed_value:
  "fst (parse_response env response_text) =
     (case response_text of
        None \<Rightarrow> Inl invalid_response
      | Some t \<Rightarrow> (case JSON_parse env (trim t) of None \<Rightarrow> Inl invalid_response | Some v \<Rightarrow> Inr v))
   \<and> (API_KEY env \<noteq> None \<and> API_KEY env \<noteq> Some [] \<and> build_parts contractCode whitepaper = Inr parts
        \<and> generateContent env parts = Inr response_text \<longrightarrow>
      fst (analyzeContractWithGemini env contractCode whitepaper) = fst (parse_response env response_text))"
  by (auto simp: parse_response_def invalid_response_def analyzeContractWithGemini_def
      split: option.splits)

theorem validator_returns_parsed_value_witness:
  "fst (parse_response scenario_env (Some '' [] '')) = Inr (JArr [])
   \<and> fst (parse_response scenario_env (Some ''oops'')) = Inl invalid_response
   \<and> fst (parse_response scenario_env None) = Inl invalid_response
   \<and> fst (analyzeContractWithGemini scenario_env (JStr ''contract A{}'') None) = Inr (JObj [])"
proof -
  have k: "API_KEY scenario_env \<noteq> None \<and> API_KEY scenario_env \<noteq> Some []
      \<and> generateContent scenario_env scenario_parts = Inr (Some ''{}'')"
    by (simp add: scenario_env_def)
  show ?thesis
    using validator_returns_parsed_value [of scenario_env "Some '' [] ''"]
      validator_returns_parsed_value [of scenario_env "Some ''oops''"]
      validator_returns_parsed_value [of scenario_env None]
      validator_returns_parsed_value [of scenario_env "Some ''{}''" "JStr ''contract A{}''" None scenario_parts]
      k scenario_build_parts
    by (simp add: trim_spaced_array parse_empty_array trim_oops parse_oops trim_empty_object parse_empty_object)
qed





text \<open>
  C4. The whitepaper builder acts by the category of the file, which is decided by the
  extension or the declared type in the order text, PDF, DOCX: a text document is read
  as text, a PDF or DOCX document as a data URL, each giving its payload (or the failure
  of the read). The builder fails with the message that names the file, as the user gave
  its name, exactly when the file is in no category.
\<close>

theorem whitepaper_classification:
  "(category_of (file_name f) (file_type f) = TextDocument \<longrightarrow>
      whitepaper_payload f =
        (case fileReader f AsText of
           Inl e \<Rightarrow> Inl e
         | Inr t \<Rightarrow>
             Inr \<lparr>data = Some t, mimeType = (if file_type f \<noteq> [] then file_type f else ''text/plain''),
                  isText = True\<rparr>))
   \<and> (category_of (file_name f) (file_type f) = PdfDocument \<longrightarrow>
      whitepaper_payload f =
        (case fileReader f AsDataURL of
           Inl e \<Rightarrow> Inl e
         | Inr u \<Rightarrow> Inr \<lparr>data = index (split (CHR '','') u) 1, mimeType = ''application/pdf'', isText = False\<rparr>))
   \<and> (category_of (file_name f) (file_type f) = DocxDocument \<longrightarrow>
      whitepaper_payload f =
        (case fileReader f AsDataURL of
           Inl e \<Rightarrow> Inl e
         | Inr u \<Rightarrow>
             Inr \<lparr>data = index (split (CHR '','') u) 1,
                  mimeType = ''application/vnd.openxmlformats-officedocument.wordprocessingml.document'',
                  isText = False\<rparr>))
   \<and> (category_of (file_name f) (file_type f) = Unsupported \<longleftrightarrow>
      whitepaper_payload f = Inl (Error (unsupported_message (file_name f))))"
  unfolding whitepaper_payload_category [of f]
  by (cases "category_of (file_name f) (file_type f)")
     (auto simp: fileReader_def split: sum.splits option.splits readAs.splits)

theorem whitepaper_classification_witness:
  "category_of ''doc.xyz'' [] = Unsupported
   \<and> whitepaper_payload doc_xyz =
       Inl (Error ''Unsupported whitepaper file type: doc.xyz. Please use PDF, DOCX, TXT, or MD.'')
   \<and> category_of ''report.pdf'' ''text/plain'' = TextDocument
   \<and> whitepaper_payload (report_pdf\<lparr>file_type := ''text/plain''\<rparr>) =
       Inr \<lparr>data = Some ''%PDF'', mimeType = ''text/plain'', isText = True\<rparr>"
proof -
  have c: "category_of ''doc.xyz'' [] = Unsupported" "category_of ''report.pdf'' ''text/plain'' = TextDocument"
    by (simp_all add: category_of_def extension_doc_xyz extension_report_pdf startsWith_def)
  show ?thesis
    using whitepaper_classification [of doc_xyz]
      whitepaper_classification [of "report_pdf\<lparr>file_type := ''text/plain''\<rparr>"] c
    by (simp add: doc_xyz_def report_pdf_def unsupported_message_def fileReader_def)
qed

text \<open>
  C5, as the claim states it, fails: in the scenario without whitepaper the model is
  called once, with three parts (the instruction block, the fenced code, the marker), not
  two.
\<close>

theorem two_part_request_counterexample:
  "ai_requests (snd (handleAnalyze scenario_env scenario_form idle)) = [scenario_parts]
   \<and> length scenario_parts = 3
   \<and> map length (ai_requests (snd (handleAnalyze scenario_env scenario_form idle))) \<noteq> [2]"
  by (simp add: scenario_effects ai_requests_def) (simp add: scenario_parts_def)

text \<open>
  C5, amended. The parts of a request are, in order: the instruction block; the contract
  source fenced as code, a part of its own; then the whitepaper slot, which is one text
  part with the whitepaper text, or a label part followed by one attachment part, or the
  one marker part. So a request has three parts, or four with an attachment, and the
  marker is in the slot exactly when there is no whitepaper. With a credential, the
  request builder sends these parts, once.
\<close>

theorem request_parts:
  "build_parts contractCode whitepaper = Inr parts \<Longrightarrow>
     (\<exists>code_text. ToString contractCode = Inr code_text
        \<and> take 2 parts =
            [Text promptIntro, Text (''```solidity'' @ [CHR 0x0A] @ code_text @ [CHR 0x0A] @ ''```'')])
     \<and> drop 2 parts =
         (case whitepaper of
            None \<Rightarrow> [Text ''No whitepaper was provided.'']
          | Some wp \<Rightarrow>
              if isText wp then
                [Text (''Here is the whitepaper content:'' @ [CHR 0x0A, CHR 0x0A] @ template_field (data wp))]
              else [Text ''Here is the whitepaper file for analysis:'', InlineData (data wp) (mimeType wp)])
     \<and> length parts = (case whitepaper of None \<Rightarrow> 3 | Some wp \<Rightarrow> if isText wp then 3 else 4)
     \<and> (Text ''No whitepaper was provided.'' \<in> set (drop 2 parts) \<longleftrightarrow> whitepaper = None)
     \<and> ai_requests (snd (analyzeContractWithGemini env contractCode whitepaper)) =
         (if API_KEY env = None \<or> API_KEY env = Some [] then [] else [parts])"
proof -
  assume b: "build_parts contractCode whitepaper = Inr parts"
  then obtain code_text where c: "ToString contractCode = Inr code_text"
    by (auto simp: build_parts_def split: sum.splits)
  let ?slot = "case whitepaper of
            None \<Rightarrow> [Text ''No whitepaper was provided.'']
          | Some wp \<Rightarrow>
              if isText wp then
                [Text (''Here is the whitepaper content:'' @ [CHR 0x0A, CHR 0x0A] @ template_field (data wp))]
              else [Text ''Here is the whitepaper file for analysis:'', InlineData (data wp) (mimeType wp)]"
  have p: "parts = [Text promptIntro, Text (''```solidity'' @ [CHR 0x0A] @ code_text @ [CHR 0x0A] @ ''```'')] @ ?slot"
    using b c by (simp add: build_parts_def)
  have head: "take 2 parts = [Text promptIntro, Text (''```solidity'' @ [CHR 0x0A] @ code_text @ [CHR 0x0A] @ ''```'')]"
    by (subst p) simp
  have slot: "drop 2 parts = ?slot"
    by (subst p) simp
  have len: "length parts = (case whitepaper of None \<Rightarrow> 3 | Some wp \<Rightarrow> if isText wp then 3 else 4)"
    by (subst p) (simp split: option.splits)
  have marker: "Text ''No whitepaper was provided.'' \<in> set (drop 2 parts) \<longleftrightarrow> whitepaper = None"
    unfolding slot by (simp split: option.splits)
  have sent: "ai_requests (snd (analyzeContractWithGemini env contractCode whitepaper)) =
         (if API_KEY env = None \<or> API_KEY env = Some [] then [] else [parts])"
    using b
    by (auto simp: analyzeContractWithGemini_def ai_requests_def parse_response_def
        split: sum.splits option.splits)
  show ?thesis
    using c head slot len marker sent by blast
qed

theorem request_parts_witness:
  "take 2 scenario_parts =
     [Text promptIntro, Text (''```solidity'' @ [CHR 0x0A] @ ''contract A{}'' @ [CHR 0x0A] @ ''```'')]
   \<and> drop 2 scenario_parts = [Text ''No whitepaper was provided.'']
   \<and> length scenario_parts = 3
   \<and> ai_requests (snd (analyzeContractWithGemini scenario_env (JStr ''contract A{}'') None)) = [scenario_parts]"
  using request_parts [OF scenario_build_parts, of scenario_env]
  by (simp add: scenario_env_def)

text \<open>
  C6. A text document that can be read gives \<open>isText = true\<close>, the text as it was read, and
  the declared type, or \<^verbatim>\<open>text/plain\<close> when none is declared; \<^verbatim>\<open>doc.txt\<close> is a text
  document whatever its declared type. A PDF document whose data URL is a prefix without
  comma, a comma, and base64 data gives \<open>isText = false\<close>, the type \<^verbatim>\<open>application/pdf\<close>
  and exactly the base64 data; \<^verbatim>\<open>report.pdf\<close> is a PDF document unless its declared type
  begins with \<^verbatim>\<open>text/\<close>.
\<close>

theorem whitepaper_payload_contents:
  "(category_of (file_name f) (file_type f) = TextDocument \<and> as_text f = Some t \<longrightarrow>
      whitepaper_payload f =
        Inr \<lparr>data = Some t, mimeType = (if file_type f = [] then ''text/plain'' else file_type f),
             isText = True\<rparr>)
   \<and> (category_of (file_name f) (file_type f) = PdfDocument
        \<and> as_dataURL f = Some (prefix @ CHR '','' # base64)
        \<and> CHR '','' \<notin> set prefix \<and> (\<forall>c\<in>set base64. is_base64 c) \<longrightarrow>
      whitepaper_payload f = Inr \<lparr>data = Some base64, mimeType = ''application/pdf'', isText = False\<rparr>)
   \<and> category_of ''doc.txt'' mime = TextDocument
   \<and> (\<not> startsWith mime ''text/'' \<longrightarrow> category_of ''report.pdf'' mime = PdfDocument)"
proof -
  have as_text: "whitepaper_payload f =
        Inr \<lparr>data = Some t, mimeType = (if file_type f = [] then ''text/plain'' else file_type f),
             isText = True\<rparr>"
    if "category_of (file_name f) (file_type f) = TextDocument" "as_text f = Some t"
    using that by (simp add: whitepaper_payload_category fileReader_def)
  have pdf: "whitepaper_payload f = Inr \<lparr>data = Some base64, mimeType = ''application/pdf'', isText = False\<rparr>"
    if "category_of (file_name f) (file_type f) = PdfDocument"
      "as_dataURL f = Some (prefix @ CHR '','' # base64)"
      "CHR '','' \<notin> set prefix" "\<forall>c\<in>set base64. is_base64 c"
  proof -
    have "CHR '','' \<notin> set base64"
      using that(4) comma_not_base64 by blast
    then have "index (split (CHR '','') (prefix @ CHR '','' # base64)) 1 = Some base64"
      using that(3) by (rule second_segment [rotated])
    then show ?thesis
      using that by (simp add: whitepaper_payload_category fileReader_def)
  qed
  have names: "category_of ''doc.txt'' mime = TextDocument"
    "\<not> startsWith mime ''text/'' \<longrightarrow> category_of ''report.pdf'' mime = PdfDocument"
    by (simp_all add: category_of_def extension_doc_txt extension_report_pdf)
  show ?thesis
    using as_text pdf names by blast
qed

theorem whitepaper_payload_contents_witness:
  "whitepaper_payload doc_txt = Inr \<lparr>data = Some ''A whitepaper.'', mimeType = ''text/plain'', isText = True\<rparr>
   \<and> whitepaper_payload report_pdf = Inr \<lparr>data = Some ''JVBERg=='', mimeType = ''application/pdf'', isText = False\<rparr>"
proof -
  have c: "category_of (file_name doc_txt) (file_type doc_txt) = TextDocument"
    "category_of (file_name report_pdf) (file_type report_pdf) = PdfDocument"
    by (simp_all add: doc_txt_def report_pdf_def category_of_def extension_doc_txt extension_report_pdf
        startsWith_def)
  have u: "as_dataURL report_pdf = Some (''data:application/pdf;base64'' @ CHR '','' # ''JVBERg=='')"
    "CHR '','' \<notin> set ''data:application/pdf;base64''" "\<forall>c\<in>set ''JVBERg==''. is_base64 c"
    by (simp_all add: report_pdf_def is_base64_def)
  show ?thesis
    using whitepaper_payload_contents [of doc_txt "''A whitepaper.''" "''data:application/pdf;base64''" "''JVBERg==''" "[]"]
      whitepaper_payload_contents [of report_pdf "''A whitepaper.''" "''data:application/pdf;base64''" "''JVBERg==''" "[]"]
      c u
    by (simp add: doc_txt_def)
qed



text \<open>
  C8. Without a credential (the variable unset or empty) the request builder fails with
  the configuration error and has made no call; no run of the submit handler then sends
  a request to the model.
\<close>

theorem missing_credential:
  "API_KEY env = None \<or> API_KEY env = Some [] \<Longrightarrow>
     analyzeContractWithGemini env contractCode whitepaper =
       (Inl (Error ''API_KEY environment variable not set''), [])
     \<and> ai_requests (snd (handleAnalyze env inp st)) = []"
proof -
  assume k: "API_KEY env = None \<or> API_KEY env = Some []"
  then have a: "analyzeContractWithGemini env c w = (Inl (Error ''API_KEY environment variable not set''), [])" for c w
    by (auto simp: analyzeContractWithGemini_def)
  have "ai_requests (snd (handleAnalyze env inp st)) = []"
    by (simp add: handleAnalyze_effects try_block_effects resolve_source_effects ai_requests_append a
        split: sum.splits) (simp add: ai_requests_def)
  with a show ?thesis by simp
qed

theorem missing_credential_witness:
  "analyzeContractWithGemini (scenario_env\<lparr>API_KEY := None\<rparr>) (JStr ''contract A{}'') None =
     (Inl (Error ''API_KEY environment variable not set''), [])
   \<and> ai_requests (snd (handleAnalyze (scenario_env\<lparr>API_KEY := None\<rparr>) scenario_form idle)) = []
   \<and> error (fst (handleAnalyze (scenario_env\<lparr>API_KEY := None\<rparr>) scenario_form idle))
       = Some ''API_KEY environment variable not set''"
proof -
  have k: "API_KEY (scenario_env\<lparr>API_KEY := None\<rparr>) = None \<or> API_KEY (scenario_env\<lparr>API_KEY := None\<rparr>) = Some []"
    by simp
  have s: "fst (resolve_source (scenario_env\<lparr>API_KEY := None\<rparr>) scenario_form s) = Inr (JStr ''contract A{}'')" for s
    using scenario_source [of s] by (simp add: resolve_source_API_KEY)
  note m = missing_credential [OF k, of "JStr ''contract A{}''" None scenario_form idle]
  then show ?thesis
    by (simp add: handleAnalyze_final try_block_thrown s scenario_no_whitepaper user_message_def)
qed

text \<open>
  C9. Every failure of the validator carries the same fixed message, and the raw text
  goes to the console only. For any two answers of the model that the validator rejects,
  the submit handler leaves the same state on the screen.
\<close>

theorem invalid_response_message:
  "(isl (fst (parse_response env t)) \<longrightarrow>
      parse_response env t = (Inl invalid_response, [ConsoleError ''Failed to parse Gemini response:'' t]))
   \<and> (isl (fst (parse_response env t1)) \<and> isl (fst (parse_response env t2)) \<longrightarrow>
        fst (handleAnalyze (env\<lparr>generateContent := \<lambda>p. Inr t1\<rparr>) inp st)
          = fst (handleAnalyze (env\<lparr>generateContent := \<lambda>p. Inr t2\<rparr>) inp st))"
proof -
  have "fst (handleAnalyze (env\<lparr>generateContent := \<lambda>p. Inr t1\<rparr>) inp st)
          = fst (handleAnalyze (env\<lparr>generateContent := \<lambda>p. Inr t2\<rparr>) inp st)"
    if "isl (fst (parse_response env t1))" "isl (fst (parse_response env t2))"
    unfolding handleAnalyze_final try_block_thrown resolve_source_generateContent
      analyze_malformed [OF that(1)] analyze_malformed [OF that(2)]
    by (simp split: sum.splits)
  then show ?thesis
    using parse_response_failure by blast
qed

theorem invalid_response_message_witness:
  "parse_response scenario_env (Some ''oops'') =
     (Inl (Error ''AI failed to return a valid analysis. Please try again.''),
      [ConsoleError ''Failed to parse Gemini response:'' (Some ''oops'')])
   \<and> fst (handleAnalyze (scenario_env\<lparr>generateContent := \<lambda>p. Inr (Some ''oops'')\<rparr>) scenario_form idle)
       = fst (handleAnalyze (scenario_env\<lparr>generateContent := \<lambda>p. Inr (Some ''{'')\<rparr>) scenario_form idle)"
proof -
  have bad: "isl (fst (parse_response scenario_env (Some ''oops'')))"
    "isl (fst (parse_response scenario_env (Some ''{'')))"
    by (simp_all add: parse_response_def parse_oops parse_open_brace trim_oops trim_open_brace)
  show ?thesis
    using invalid_response_message [of scenario_env "Some ''oops''" "Some ''oops''" "Some ''{''" scenario_form idle] bad
    by (simp add: invalid_response_def)
qed

text \<open>
  C10. The builder treats a file as it treats the same file with its name in lower case;
  only the message for an unsupported file differs, which names the file as given. So
  \<^verbatim>\<open>REPORT.PDF\<close> is a PDF document. Declared types are compared as they are:
  \<^verbatim>\<open>application/pdf\<close> makes a file without extension a PDF document,
  \<^verbatim>\<open>APPLICATION/PDF\<close> does not.
\<close>

theorem extension_case_insensitive:
  "whitepaper_payload (f\<lparr>file_name := toLowerCase (file_name f)\<rparr>) =
     (case whitepaper_payload f of
        Inl (Error m) \<Rightarrow> Inl (Error (unsupported_message (toLowerCase (file_name f))))
      | Inl NotAnError \<Rightarrow> Inl NotAnError
      | Inr p \<Rightarrow> Inr p)
   \<and> category_of (toLowerCase (file_name f)) (file_type f) = category_of (file_name f) (file_type f)
   \<and> whitepaper_payload REPORT_PDF = Inr \<lparr>data = Some ''JVBERg=='', mimeType = ''application/pdf'', isText = False\<rparr>
   \<and> whitepaper_payload (REPORT_PDF\<lparr>file_name := ''report'', file_type := ''application/pdf''\<rparr>)
       = Inr \<lparr>data = Some ''JVBERg=='', mimeType = ''application/pdf'', isText = False\<rparr>
   \<and> whitepaper_payload (REPORT_PDF\<lparr>file_name := ''report'', file_type := ''APPLICATION/PDF''\<rparr>)
       = Inl (Error (unsupported_message ''report''))
   \<and> whitepaper_payload (REPORT_PDF\<lparr>file_name := ''report'', file_type := ''TEXT/PLAIN''\<rparr>)
       = Inl (Error (unsupported_message ''report''))"
proof -
  have reader: "fileReader (f\<lparr>file_name := n\<rparr>) mode = fileReader f mode" for n mode
    by (cases mode) (simp_all add: fileReader_def)
  have lower: "whitepaper_payload (f\<lparr>file_name := toLowerCase (file_name f)\<rparr>) =
     (case whitepaper_payload f of
        Inl (Error m) \<Rightarrow> Inl (Error (unsupported_message (toLowerCase (file_name f))))
      | Inl NotAnError \<Rightarrow> Inl NotAnError
      | Inr p \<Rightarrow> Inr p)"
    unfolding whitepaper_payload_category
    by (cases "category_of (file_name f) (file_type f)")
       (auto simp: category_lower reader fileReader_def split: option.splits readAs.splits)
  have u: "index (split (CHR '','') ''data:application/octet-stream;base64,JVBERg=='') 1 = Some ''JVBERg==''"
    using second_segment [of "CHR '',''" "''data:application/octet-stream;base64''" "''JVBERg==''"]
    by simp
  have examples:
    "whitepaper_payload REPORT_PDF = Inr \<lparr>data = Some ''JVBERg=='', mimeType = ''application/pdf'', isText = False\<rparr>"
    "whitepaper_payload (REPORT_PDF\<lparr>file_name := ''report'', file_type := ''application/pdf''\<rparr>)
       = Inr \<lparr>data = Some ''JVBERg=='', mimeType = ''application/pdf'', isText = False\<rparr>"
    "whitepaper_payload (REPORT_PDF\<lparr>file_name := ''report'', file_type := ''APPLICATION/PDF''\<rparr>)
       = Inl (Error (unsupported_message ''report''))"
    "whitepaper_payload (REPORT_PDF\<lparr>file_name := ''report'', file_type := ''TEXT/PLAIN''\<rparr>)
       = Inl (Error (unsupported_message ''report''))"
    by (simp_all add: whitepaper_payload_category REPORT_PDF_def category_of_def extension_REPORT_PDF
        extension_report startsWith_def fileReader_def u)
  show ?thesis
    using lower examples by (simp add: category_lower)
qed

theorem extension_case_insensitive_witness:
  "whitepaper_payload (REPORT_PDF\<lparr>file_name := ''report.pdf''\<rparr>) = whitepaper_payload REPORT_PDF"
proof -
  have "toLowerCase (file_name REPORT_PDF) = ''report.pdf''"
    by (simp add: REPORT_PDF_def lower_REPORT_PDF)
  then show ?thesis
    using extension_case_insensitive [of REPORT_PDF] by simp
qed

end
